theory Spec2Isabelle
  imports Complex_Main "HOL-Library.Sublist"
begin

section \<open>Data model\<close>

text \<open>
  The records follow the TypeScript interfaces of the application (\<open>Bid\<close>,
  \<open>User\<close>, \<open>Stock\<close>, \<open>Auction\<close>, \<open>Invoice\<close>, \<open>AppState\<close>). A JavaScript
  \<open>number\<close> that holds a price or a profit is a \<open>real\<close> (the rounding of double
  arithmetic is not modelled), a millisecond timestamp and a share count are an \<open>int\<close>.
  An optional field is an \<open>option\<close>.
\<close>

datatype side = Buy | Sell

datatype status = Active | Cancelled | Executed

record bid =
  bidId :: string
  userId :: string
  userName :: string
  amount :: real
  quantity :: "int option"
  bidType :: side
  timestamp :: int
  stockSymbol :: string
  status :: "status option"
  profitLoss :: "real option"

text \<open>\<open>Omit<Bid, 'id'>\<close>: what \<open>placeBid\<close> hands to \<open>addBid\<close>.\<close>

record new_bid =
  n_userId :: string
  n_userName :: string
  n_amount :: real
  n_quantity :: "int option"
  n_bidType :: side
  n_timestamp :: int
  n_stockSymbol :: string
  n_status :: "status option"
  n_profitLoss :: "real option"

text \<open>\<open>Partial<Bid>\<close>: the \<open>updates\<close> of an \<open>UPDATE_BID\<close> action.\<close>

record bid_updates =
  u_bidId :: "string option"
  u_userId :: "string option"
  u_userName :: "string option"
  u_amount :: "real option"
  u_quantity :: "int option"
  u_bidType :: "side option"
  u_timestamp :: "int option"
  u_stockSymbol :: "string option"
  u_status :: "status option"
  u_profitLoss :: "real option"

record user =
  uid :: string
  email :: string
  displayName :: string
  phoneNumber :: "string option"

record stock =
  symbol :: string
  name :: string
  currentPrice :: real

record auction =
  auctionId :: string
  a_stockSymbol :: string
  startPrice :: real
  a_currentPrice :: real
  startTime :: int
  endTime :: int
  duration :: int
  isActive :: bool
  totalBids :: int
  participants :: "string list"

record invoice =
  item :: string
  i_quantity :: int
  price :: real
  i_profitLoss :: real
  i_timestamp :: int
  i_user :: string
  i_bidType :: side
  i_stockSymbol :: string
  i_bidId :: "string option"

record invoice_modal =
  isOpen :: bool
  modal_invoice :: "invoice option"

record app_state =
  user :: "user option"
  authInitialized :: bool
  firebaseConnected :: bool
  auction :: "auction option"
  stock :: stock
  bids :: "bid list"
  highestBid :: "bid option"
  loading :: bool
  error :: "string option"
  userProfitLoss :: real
  userBids :: "bid list"
  botBiddingEnabled :: bool
  whatsappConnected :: bool
  invoiceModal :: invoice_modal

datatype app_action =
    SET_USER "user option"
  | SET_AUTH_INITIALIZED bool
  | SET_FIREBASE_CONNECTED bool
  | SET_AUCTION "auction option"
  | SET_STOCK stock
  | SET_BIDS "bid list"
  | ADD_BID bid
  | UPDATE_BID string bid_updates
  | SET_HIGHEST_BID "bid option"
  | SET_LOADING bool
  | SET_ERROR "string option"
  | UPDATE_PROFIT_LOSS real
  | SET_USER_BIDS "bid list"
  | SET_BOT_BIDDING bool
  | SET_WHATSAPP_CONNECTED bool
  | SET_INVOICE_MODAL bool "invoice option"
  | RESET_STATE


section \<open>Array.prototype.sort, filter and slice\<close>

text \<open>
  \<open>xs.sort(cmp)\<close> is stable, and \<open>cmp a b > 0\<close> asks for \<open>a\<close> after \<open>b\<close>. For a
  comparator that is a consistent ordering (every comparator of this application is a
  difference of numbers) the result does not depend on the engine's algorithm: it is the
  stable sorted rearrangement, which insertion from the right computes. An element is
  put in front of the first element it does not have to follow, so it stays in front of
  the elements that compare equal to it and came after it.
\<close>

fun insert_cmp :: "('a \<Rightarrow> 'a \<Rightarrow> real) \<Rightarrow> 'a \<Rightarrow> 'a list \<Rightarrow> 'a list" where
  "insert_cmp cmp x [] = [x]"
| "insert_cmp cmp x (y # ys) =
     (if cmp x y \<le> 0 then x # y # ys else y # insert_cmp cmp x ys)"

fun js_sort :: "('a \<Rightarrow> 'a \<Rightarrow> real) \<Rightarrow> 'a list \<Rightarrow> 'a list" where
  "js_sort cmp [] = []"
| "js_sort cmp (x # xs) = insert_cmp cmp x (js_sort cmp xs)"

text \<open>\<open>xs.slice(0, n)\<close>.\<close>

definition slice0 :: "nat \<Rightarrow> 'a list \<Rightarrow> 'a list" where
  "slice0 n xs = take n xs"


section \<open>The order book and the leaderboard\<close>

text \<open>
  \<open>OrderBook.tsx\<close>. A bid counts as active when \<open>!bid.status || bid.status ===
  'active'\<close>. Each side shows its first five bids (a second copy of the component
  differs only in showing ten).
\<close>

definition isActiveBid :: "bid \<Rightarrow> bool" where
  "isActiveBid b = (status b = None \<or> status b = Some Active)"

definition activeBids :: "bid list \<Rightarrow> bid list" where
  "activeBids bs = filter isActiveBid bs"

definition buyBids :: "bid list \<Rightarrow> bid list" where
  "buyBids bs =
     slice0 5 (js_sort (\<lambda>a b. amount b - amount a)
       (filter (\<lambda>b. bidType b = Buy) (activeBids bs)))"

definition sellBids :: "bid list \<Rightarrow> bid list" where
  "sellBids bs =
     slice0 5 (js_sort (\<lambda>a b. amount a - amount b)
       (filter (\<lambda>b. bidType b = Sell) (activeBids bs)))"

definition topBids :: "bid list \<Rightarrow> bid list" where
  "topBids bs = slice0 5 (js_sort (\<lambda>a b. amount b - amount a) (activeBids bs))"

text \<open>
  \<open>TopBids.tsx\<close>: the leaderboard keeps every bid that is not cancelled and breaks
  ties of the amount by the earlier timestamp.
\<close>

definition leaderboard_cmp :: "bid \<Rightarrow> bid \<Rightarrow> real" where
  "leaderboard_cmp a b =
     (if amount b \<noteq> amount a then amount b - amount a
      else real_of_int (timestamp a - timestamp b))"

definition leaderboard :: "bid list \<Rightarrow> bid list" where
  "leaderboard bs =
     slice0 15 (js_sort leaderboard_cmp (filter (\<lambda>b. status b \<noteq> Some Cancelled) bs))"


section \<open>The application-state reducer\<close>

definition apply_updates :: "bid \<Rightarrow> bid_updates \<Rightarrow> bid" where
  "apply_updates b u =
     \<lparr> bidId = (case u_bidId u of None \<Rightarrow> bidId b | Some v \<Rightarrow> v),
       userId = (case u_userId u of None \<Rightarrow> userId b | Some v \<Rightarrow> v),
       userName = (case u_userName u of None \<Rightarrow> userName b | Some v \<Rightarrow> v),
       amount = (case u_amount u of None \<Rightarrow> amount b | Some v \<Rightarrow> v),
       quantity = (case u_quantity u of None \<Rightarrow> quantity b | Some v \<Rightarrow> Some v),
       bidType = (case u_bidType u of None \<Rightarrow> bidType b | Some v \<Rightarrow> v),
       timestamp = (case u_timestamp u of None \<Rightarrow> timestamp b | Some v \<Rightarrow> v),
       stockSymbol = (case u_stockSymbol u of None \<Rightarrow> stockSymbol b | Some v \<Rightarrow> v),
       status = (case u_status u of None \<Rightarrow> status b | Some v \<Rightarrow> Some v),
       profitLoss = (case u_profitLoss u of None \<Rightarrow> profitLoss b | Some v \<Rightarrow> Some v) \<rparr>"

definition initialState :: "bool \<Rightarrow> app_state" where
  "initialState botEnabled =
     \<lparr> user = None, authInitialized = False, firebaseConnected = False, auction = None,
       stock = \<lparr> symbol = ''AAPL'', name = ''Apple Inc.'', currentPrice = 150 \<rparr>,
       bids = [], highestBid = None, loading = False, error = None, userProfitLoss = 0,
       userBids = [], botBiddingEnabled = botEnabled, whatsappConnected = False,
       invoiceModal = \<lparr> isOpen = False, modal_invoice = None \<rparr> \<rparr>"

text \<open>
  The first argument is the build-time flag \<open>VITE_BOT_BIDDING_ENABLED\<close> that
  \<open>initialState\<close> reads.
\<close>

fun auctionReducer :: "bool \<Rightarrow> app_state \<Rightarrow> app_action \<Rightarrow> app_state" where
  "auctionReducer e s (SET_USER u) = s\<lparr>user := u\<rparr>"
| "auctionReducer e s (SET_AUTH_INITIALIZED v) = s\<lparr>authInitialized := v\<rparr>"
| "auctionReducer e s (SET_FIREBASE_CONNECTED v) = s\<lparr>firebaseConnected := v\<rparr>"
| "auctionReducer e s (SET_AUCTION a) = s\<lparr>auction := a\<rparr>"
| "auctionReducer e s (SET_STOCK st) = s\<lparr>stock := st\<rparr>"
| "auctionReducer e s (SET_BIDS bs) = s\<lparr>bids := bs\<rparr>"
| "auctionReducer e s (ADD_BID b) =
     s\<lparr>bids := js_sort (\<lambda>a b. real_of_int (timestamp b - timestamp a)) (b # bids s)\<rparr>"
| "auctionReducer e s (UPDATE_BID i u) =
     s\<lparr>bids := map (\<lambda>b. if bidId b = i then apply_updates b u else b) (bids s)\<rparr>"
| "auctionReducer e s (SET_HIGHEST_BID h) = s\<lparr>highestBid := h\<rparr>"
| "auctionReducer e s (SET_LOADING v) = s\<lparr>loading := v\<rparr>"
| "auctionReducer e s (SET_ERROR v) = s\<lparr>error := v\<rparr>"
| "auctionReducer e s (UPDATE_PROFIT_LOSS v) = s\<lparr>userProfitLoss := v\<rparr>"
| "auctionReducer e s (SET_USER_BIDS bs) = s\<lparr>userBids := bs\<rparr>"
| "auctionReducer e s (SET_BOT_BIDDING v) = s\<lparr>botBiddingEnabled := v\<rparr>"
| "auctionReducer e s (SET_WHATSAPP_CONNECTED v) = s\<lparr>whatsappConnected := v\<rparr>"
| "auctionReducer e s (SET_INVOICE_MODAL opn iv) =
     s\<lparr>invoiceModal :=
        \<lparr> isOpen = opn,
          modal_invoice = (case iv of None \<Rightarrow> modal_invoice (invoiceModal s) | Some i \<Rightarrow> Some i) \<rparr>\<rparr>"
| "auctionReducer e s RESET_STATE = (initialState e)\<lparr>authInitialized := authInitialized s\<rparr>"


section \<open>The document store\<close>

text \<open>
  The hosted document store is external to the repository. It is modelled as three
  collections and the store's access rules: \<open>rules st c a = Some msg\<close> says
  that the store rejects every access \<open>a\<close> to collection \<open>c\<close> with the error message
  \<open>msg\<close> (security rules, a lost connection), \<open>None\<close> that it serves it. A bid
  document holds the fields that \<open>addBid\<close> writes; a user document is the map of its
  numeric fields (\<open>profitLoss\<close>, \<open>totalBids\<close>, \<open>activeBids\<close>, ...); the bookkeeping
  timestamps \<open>createdAt\<close>, \<open>updatedAt\<close> and \<open>cancelledAt\<close> are left out.
\<close>

datatype coll = BidsC | UsersC | AuctionsC

datatype access = Read | Write

record bid_doc =
  d_userId :: string
  d_userName :: string
  d_amount :: real
  d_quantity :: "int option"
  d_bidType :: side
  d_timestamp :: "int option"
  d_stockSymbol :: string
  d_status :: "status option"
  d_profitLoss :: "real option"

record auction_doc =
  ad_totalBids :: real
  ad_currentPrice :: real
  ad_highestBid :: "real option"

record store =
  bidsCol :: "(string \<times> bid_doc) list"
  usersCol :: "string \<rightharpoonup> (string \<rightharpoonup> real)"
  auctionsCol :: "string \<rightharpoonup> auction_doc"
  rules :: "coll \<Rightarrow> access \<Rightarrow> string option"

text \<open>\<open>increment(v)\<close> on a field of a document: a missing field counts as \<open>0\<close>.\<close>

definition increment :: "(string \<rightharpoonup> real) \<Rightarrow> string \<Rightarrow> real \<Rightarrow> (string \<rightharpoonup> real)" where
  "increment d f v = d(f \<mapsto> (case d f of None \<Rightarrow> v | Some x \<Rightarrow> x + v))"

text \<open>
  \<open>updateDoc\<close> on a user document: rejected by the rules, or because the document
  does not exist.
\<close>

definition updateUserDoc ::
  "store \<Rightarrow> string \<Rightarrow> ((string \<rightharpoonup> real) \<Rightarrow> (string \<rightharpoonup> real)) \<Rightarrow> string + store" where
  "updateUserDoc st u f =
     (case rules st UsersC Write of
        Some msg \<Rightarrow> Inl msg
      | None \<Rightarrow>
          (case usersCol st u of
             None \<Rightarrow> Inl ''No document to update''
           | Some d \<Rightarrow> Inr (st\<lparr>usersCol := (usersCol st)(u \<mapsto> f d)\<rparr>)))"

definition updateBidDoc :: "store \<Rightarrow> string \<Rightarrow> (bid_doc \<Rightarrow> bid_doc) \<Rightarrow> string + store" where
  "updateBidDoc st i f =
     (case rules st BidsC Write of
        Some msg \<Rightarrow> Inl msg
      | None \<Rightarrow>
          (case map_of (bidsCol st) i of
             None \<Rightarrow> Inl ''No document to update''
           | Some d \<Rightarrow>
               Inr (st\<lparr>bidsCol := map (\<lambda>(k, d). if k = i then (k, f d) else (k, d)) (bidsCol st)\<rparr>)))"


section \<open>The store service (\<open>firebase.ts\<close>)\<close>

text \<open>
  The private helpers catch every error and only log it: a failed update leaves the
  store as it was and the caller goes on.
\<close>

definition updateUserBidCount :: "store \<Rightarrow> string \<Rightarrow> store" where
  "updateUserBidCount st u =
     (case rules st UsersC Read of
        Some msg \<Rightarrow> st
      | None \<Rightarrow>
          (case usersCol st u of
             None \<Rightarrow> st
           | Some d \<Rightarrow>
               (case updateUserDoc st u (\<lambda>d. increment d ''totalBids'' 1) of
                  Inl msg \<Rightarrow> st
                | Inr st' \<Rightarrow> st')))"

definition updateUserStats :: "store \<Rightarrow> string \<Rightarrow> string \<Rightarrow> real \<Rightarrow> store" where
  "updateUserStats st u field v =
     (case updateUserDoc st u (\<lambda>d. increment d field v) of
        Inl msg \<Rightarrow> st
      | Inr st' \<Rightarrow> st')"

definition updateAuctionStats :: "store \<Rightarrow> string \<Rightarrow> real \<Rightarrow> store" where
  "updateAuctionStats st symb bidAmount =
     (case rules st AuctionsC Read of
        Some msg \<Rightarrow> st
      | None \<Rightarrow>
          (case auctionsCol st symb of
             None \<Rightarrow> st
           | Some a \<Rightarrow>
               (case rules st AuctionsC Write of
                  Some msg \<Rightarrow> st
                | None \<Rightarrow>
                    st\<lparr>auctionsCol := (auctionsCol st)(symb \<mapsto>
                      a\<lparr>ad_totalBids := ad_totalBids a + 1,
                        ad_currentPrice :=
                          (if (case ad_highestBid a of None \<Rightarrow> True | Some h \<Rightarrow> bidAmount > h)
                           then bidAmount else ad_currentPrice a)\<rparr>)\<rparr>)))"

text \<open>
  \<open>addBid\<close>. The arguments \<open>newId\<close>, \<open>serverNow\<close> and \<open>now\<close> are the document id
  that \<open>addDoc\<close> generates, the value of \<open>serverTimestamp()\<close> and the reading of
  \<open>Date.now()\<close>. The document is the spread of the bid that was passed in, with
  \<open>status\<close> and \<open>timestamp\<close> overwritten. An error is rethrown with the prefix
  \<open>Failed to place bid:\<close>.
\<close>

definition addBid :: "store \<Rightarrow> string \<Rightarrow> int \<Rightarrow> int \<Rightarrow> new_bid \<Rightarrow> string + (bid \<times> store)" where
  "addBid st newId serverNow now nb =
     (case rules st BidsC Write of
        Some msg \<Rightarrow> Inl (''Failed to place bid: '' @ msg)
      | None \<Rightarrow>
          (let bidData =
                 \<lparr> d_userId = n_userId nb, d_userName = n_userName nb, d_amount = n_amount nb,
                   d_quantity = n_quantity nb, d_bidType = n_bidType nb,
                   d_timestamp = Some serverNow, d_stockSymbol = n_stockSymbol nb,
                   d_status = Some Active, d_profitLoss = n_profitLoss nb \<rparr>;
               st1 = st\<lparr>bidsCol := bidsCol st @ [(newId, bidData)]\<rparr>;
               st2 = (if n_userId nb \<noteq> [] \<and> n_userId nb \<noteq> ''bot''
                      then updateUserStats (updateUserBidCount st1 (n_userId nb))
                             (n_userId nb) ''activeBids'' 1
                      else st1);
               st3 = updateAuctionStats st2 (n_stockSymbol nb) (n_amount nb)
           in Inr (\<lparr> bidId = newId, userId = n_userId nb, userName = n_userName nb,
                     amount = n_amount nb, quantity = n_quantity nb, bidType = n_bidType nb,
                     timestamp = now, stockSymbol = n_stockSymbol nb, status = Some Active,
                     profitLoss = n_profitLoss nb \<rparr>, st3)))"

text \<open>\<open>cancelBid\<close>: every error is rethrown with its own message.\<close>

definition cancelBid :: "store \<Rightarrow> string \<Rightarrow> string \<Rightarrow> string + store" where
  "cancelBid st i requester =
     (case rules st BidsC Read of
        Some msg \<Rightarrow> Inl msg
      | None \<Rightarrow>
          (case map_of (bidsCol st) i of
             None \<Rightarrow> Inl ''Bid not found''
           | Some d \<Rightarrow>
               if d_userId d \<noteq> requester then Inl ''You can only cancel your own bids''
               else if d_status d \<noteq> Some Active then Inl ''Bid cannot be cancelled''
               else
                 (case updateBidDoc st i (\<lambda>d. d\<lparr>d_status := Some Cancelled\<rparr>) of
                    Inl msg \<Rightarrow> Inl msg
                  | Inr st' \<Rightarrow> Inr (updateUserStats st' requester ''activeBids'' (- 1)))))"

text \<open>
  The query of \<open>getBids\<close> and \<open>subscribeToBids\<close>: the documents of one stock symbol,
  newest first, at most \<open>limitCount\<close> of them. A document without a timestamp has no
  place in the order and is not returned.
\<close>

definition doc_time :: "string \<times> bid_doc \<Rightarrow> int" where
  "doc_time p = (case d_timestamp (snd p) of None \<Rightarrow> 0 | Some t \<Rightarrow> t)"

definition bidsQuery :: "store \<Rightarrow> string \<Rightarrow> nat \<Rightarrow> (string \<times> bid_doc) list" where
  "bidsQuery st symb limitCount =
     take limitCount
       (js_sort (\<lambda>a b. real_of_int (doc_time b - doc_time a))
          (filter (\<lambda>p. d_stockSymbol (snd p) = symb \<and> d_timestamp (snd p) \<noteq> None) (bidsCol st)))"

text \<open>
  The object that both readers build from a document of the snapshot. \<open>x || y\<close> takes
  \<open>y\<close> when \<open>x\<close> is missing, \<open>0\<close> or the empty string. The fields \<open>status\<close> and
  \<open>profitLoss\<close> of the document are not copied.
\<close>

definition bid_of_doc :: "string \<Rightarrow> int \<Rightarrow> string \<times> bid_doc \<Rightarrow> bid" where
  "bid_of_doc symb now p =
     (let d = snd p in
      \<lparr> bidId = fst p, userId = d_userId d, userName = d_userName d, amount = d_amount d,
        quantity = Some (case d_quantity d of None \<Rightarrow> 1 | Some q \<Rightarrow> if q = 0 then 1 else q),
        bidType = d_bidType d,
        timestamp = (case d_timestamp d of None \<Rightarrow> now | Some t \<Rightarrow> if t = 0 then now else t),
        stockSymbol = (if d_stockSymbol d = [] then symb else d_stockSymbol d),
        status = None, profitLoss = None \<rparr>)"

text \<open>
  \<open>subscribeToBids\<close>: the list that the callback receives for the current content of
  the store; the empty list when the subscription fails. \<open>getBids\<close> returns the same
  list once.
\<close>

definition subscribeToBids :: "store \<Rightarrow> int \<Rightarrow> string \<Rightarrow> nat \<Rightarrow> bid list" where
  "subscribeToBids st now symb limitCount =
     (case rules st BidsC Read of
        Some msg \<Rightarrow> []
      | None \<Rightarrow> map (bid_of_doc symb now) (bidsQuery st symb limitCount))"

definition getBids :: "store \<Rightarrow> int \<Rightarrow> string \<Rightarrow> nat \<Rightarrow> bid list" where
  "getBids st now symb limitCount =
     (case rules st BidsC Read of
        Some msg \<Rightarrow> []
      | None \<Rightarrow> map (bid_of_doc symb now) (bidsQuery st symb limitCount))"

text \<open>
  \<open>updateUserProfitLoss\<close>: creates the user document when there is none, adds to its
  \<open>profitLoss\<close> otherwise; here an error is rethrown.
\<close>

definition updateUserProfitLoss :: "store \<Rightarrow> string \<Rightarrow> real \<Rightarrow> string + store" where
  "updateUserProfitLoss st u v =
     (case rules st UsersC Read of
        Some msg \<Rightarrow> Inl (''Failed to update profit/loss: '' @ msg)
      | None \<Rightarrow>
          (case usersCol st u of
             None \<Rightarrow>
               (case rules st UsersC Write of
                  Some msg \<Rightarrow> Inl (''Failed to update profit/loss: '' @ msg)
                | None \<Rightarrow>
                    Inr (st\<lparr>usersCol :=
                      (usersCol st)(u \<mapsto> [''profitLoss'' \<mapsto> v, ''totalBids'' \<mapsto> 1])\<rparr>))
           | Some d \<Rightarrow>
               (case updateUserDoc st u (\<lambda>d. increment d ''profitLoss'' v) of
                  Inl msg \<Rightarrow> Inl (''Failed to update profit/loss: '' @ msg)
                | Inr st' \<Rightarrow> Inr st')))"


section \<open>The bid history (\<open>BidHistory.tsx\<close>)\<close>

datatype filter_type = FilterAll | FilterBuy | FilterSell | FilterUser

definition filteredBids :: "bool \<Rightarrow> filter_type \<Rightarrow> string option \<Rightarrow> bid list \<Rightarrow> bid list" where
  "filteredBids showUserOnly flt currentUserId bs =
     slice0 20
       (js_sort (\<lambda>a b. real_of_int (timestamp b - timestamp a))
          (filter (\<lambda>b.
             if showUserOnly \<and> Some (userId b) \<noteq> currentUserId then False
             else (case flt of
                     FilterBuy \<Rightarrow> bidType b = Buy
                   | FilterSell \<Rightarrow> bidType b = Sell
                   | FilterUser \<Rightarrow> Some (userId b) = currentUserId
                   | FilterAll \<Rightarrow> True)) bs))"


section \<open>Text helpers\<close>

text \<open>\<open>a || b\<close> on strings: the empty string is falsy.\<close>

definition or_str :: "string \<Rightarrow> string \<Rightarrow> string" where
  "or_str a b = (if a = [] then b else a)"

text \<open>An environment variable \<open>v || d\<close>: unset or empty gives the default.\<close>

definition env_or :: "string option \<Rightarrow> string \<Rightarrow> string" where
  "env_or v d = (case v of None \<Rightarrow> d | Some x \<Rightarrow> or_str x d)"

text \<open>The decimal text of a number, as a template literal prints an integer.\<close>

fun show_nat :: "nat \<Rightarrow> string" where
  "show_nat n =
     (if n < 10 then [''0123456789'' ! n]
      else show_nat (n div 10) @ [''0123456789'' ! (n mod 10)])"

definition show_int :: "int \<Rightarrow> string" where
  "show_int i = (if i < 0 then CHR ''-'' # show_nat (nat (- i)) else show_nat (nat i))"

definition upper_side :: "side \<Rightarrow> string" where
  "upper_side t = (case t of Buy \<Rightarrow> ''BUY'' | Sell \<Rightarrow> ''SELL'')"

text \<open>
  The value of an unsigned decimal numeral \<open>ddd\<close> or \<open>ddd.ddd\<close>; on such a text it is
  what \<open>parseFloat\<close> returns, and \<open>parse_digits\<close> what \<open>parseInt\<close> returns on \<open>ddd\<close>.
  They stand for the two library functions where a concrete text is evaluated.
\<close>

fun position :: "'a \<Rightarrow> 'a list \<Rightarrow> nat option" where
  "position x [] = None"
| "position x (y # ys) = (if x = y then Some 0 else map_option Suc (position x ys))"

definition digit_of :: "char \<Rightarrow> nat option" where
  "digit_of c = position c ''0123456789''"

fun digits_value :: "nat \<Rightarrow> string \<Rightarrow> nat option" where
  "digits_value acc [] = Some acc"
| "digits_value acc (c # cs) =
     (case digit_of c of None \<Rightarrow> None | Some d \<Rightarrow> digits_value (10 * acc + d) cs)"

definition parse_digits :: "string \<Rightarrow> int option" where
  "parse_digits s = (if s = [] then None else map_option int (digits_value 0 s))"

definition parse_decimal :: "string \<Rightarrow> real option" where
  "parse_decimal s =
     (let ip = takeWhile (\<lambda>c. c \<noteq> CHR ''.'') s;
          fp = drop (length ip + 1) s
      in if ip = [] then None
         else (case (digits_value 0 ip, digits_value 0 fp) of
                 (Some i, Some f) \<Rightarrow> Some (real i + real f / 10 ^ length fp)
               | _ \<Rightarrow> None))"


section \<open>The invoice service (\<open>whatsapp.ts\<close>)\<close>

record wa_service =
  accountSid :: string
  authToken :: string
  whatsappNumber :: string
  backendApiUrl :: string
  useBackendApi :: bool
  isConfigured :: bool

text \<open>
  The constructor reads five environment variables: the provider's account id, its
  token, the sender number, the relay's address and the relay switch.
\<close>

definition WhatsAppService ::
  "string option \<Rightarrow> string option \<Rightarrow> string option \<Rightarrow> string option \<Rightarrow> string option
   \<Rightarrow> wa_service" where
  "WhatsAppService sid tok num url useBackend =
     (let a = env_or sid []; t = env_or tok [];
          b = env_or url ''http://localhost:3001'';
          ub = (useBackend = Some ''true'')
      in \<lparr> accountSid = a, authToken = t,
           whatsappNumber = env_or num ''whatsapp:+14155238886'',
           backendApiUrl = b, useBackendApi = ub,
           isConfigured =
             ((ub \<and> b \<noteq> []) \<or>
              (a \<noteq> [] \<and> t \<noteq> [] \<and> a \<noteq> ''your_twilio_account_sid''
                 \<and> t \<noteq> ''your_twilio_auth_token'')) \<rparr>)"

text \<open>
  What a \<open>fetch\<close> gives: an exception (no connection, a cross-origin refusal, a body
  that is not JSON), or a response with its \<open>ok\<close> flag and the message id of its body.
\<close>

datatype http_result = FetchError string | HttpResponse bool "string option"

record wa_net =
  relay :: http_result
  twilio :: http_result
  t_sim :: int

datatype wa_event =
    RelayPost string string string
  | TwilioPost string string string
  | Simulated string string
  | Delay nat

record wa_response =
  success :: bool
  messageId :: "string option"
  wa_error :: "string option"
  deliveryStatus :: "string option"

definition formatPhoneNumber :: "string \<Rightarrow> string option" where
  "formatPhoneNumber phone =
     (let cleaned = filter (\<lambda>c. c \<in> set ''0123456789'') phone;
          formatted = (if length cleaned = 10 then CHR ''1'' # cleaned else cleaned)
      in if length formatted < 10 \<or> length formatted > 15 then None
         else Some (''whatsapp:+'' @ formatted))"

definition simulateMessage :: "wa_net \<Rightarrow> string \<Rightarrow> string \<Rightarrow> wa_event list \<times> wa_response" where
  "simulateMessage net to body =
     ([Simulated to body, Delay 800],
      \<lparr> success = True, messageId = Some (''simulated_'' @ show_int (t_sim net)),
        wa_error = None, deliveryStatus = Some ''sent'' \<rparr>)"

definition sendViaBackendAPI ::
  "wa_service \<Rightarrow> wa_net \<Rightarrow> string \<Rightarrow> string \<Rightarrow> wa_event list \<times> wa_response" where
  "sendViaBackendAPI svc net to body =
     (case relay net of
        HttpResponse True mid \<Rightarrow>
          ([RelayPost (backendApiUrl svc @ ''/api/send-whatsapp'') to body],
           \<lparr> success = True, messageId = mid, wa_error = None, deliveryStatus = Some ''sent'' \<rparr>)
      | _ \<Rightarrow>
          (let (ev, r) = simulateMessage net to body
           in (RelayPost (backendApiUrl svc @ ''/api/send-whatsapp'') to body # ev, r)))"

definition sendTwilioMessage ::
  "wa_service \<Rightarrow> wa_net \<Rightarrow> string \<Rightarrow> string \<Rightarrow> wa_event list \<times> wa_response" where
  "sendTwilioMessage svc net to body =
     (case twilio net of
        HttpResponse True mid \<Rightarrow>
          ([TwilioPost (whatsappNumber svc) to body],
           \<lparr> success = True, messageId = mid, wa_error = None, deliveryStatus = Some ''sent'' \<rparr>)
      | _ \<Rightarrow>
          (let (ev, r) = simulateMessage net to body
           in (TwilioPost (whatsappNumber svc) to body # ev, r)))"

text \<open>
  \<open>sendInvoice\<close>. The text of the invoice is built by \<open>formatInvoiceMessage\<close>, a
  fixed layout with locale-dependent number and date formats; it is the parameter
  \<open>fmt\<close>. The result is the list of delivery events in the order they happen, and the
  response.
\<close>

definition sendInvoice ::
  "wa_service \<Rightarrow> wa_net \<Rightarrow> (invoice \<Rightarrow> string) \<Rightarrow> string \<Rightarrow> invoice
   \<Rightarrow> wa_event list \<times> wa_response" where
  "sendInvoice svc net fmt phone iv =
     (case formatPhoneNumber phone of
        None \<Rightarrow>
          ([], \<lparr> success = False, messageId = None,
                 wa_error = Some ''Invalid phone number format'', deliveryStatus = None \<rparr>)
      | Some formattedPhone \<Rightarrow>
          (let message = fmt iv
           in if useBackendApi svc then sendViaBackendAPI svc net formattedPhone message
              else if isConfigured svc then sendTwilioMessage svc net formattedPhone message
              else simulateMessage net formattedPhone message))"


section \<open>The bid form (\<open>BidForm\<close>)\<close>

text \<open>
  The outcome of \<open>validateBid\<close> is the pair of \<open>isValidBid\<close> and the message; each
  message is a constructor here. \<open>parseFloat\<close> and \<open>parseInt\<close> are parameters
  (\<open>None\<close> is \<open>NaN\<close>).
\<close>

datatype validation =
    NoInput
  | InvalidPrice
  | InvalidQuantity
  | QuantityTooLarge
  | BelowMinimum real
  | AboveMaximum
  | OrderTooLarge
  | ValidBid side real

definition isValidBid :: "validation \<Rightarrow> bool" where
  "isValidBid v = (case v of ValidBid t a \<Rightarrow> True | _ \<Rightarrow> False)"

definition minBid :: "bid option \<Rightarrow> real \<Rightarrow> real \<Rightarrow> real" where
  "minBid highest current minIncrement =
     (case highest of Some h \<Rightarrow> amount h + minIncrement | None \<Rightarrow> current + minIncrement)"

definition validateBid ::
  "(string \<Rightarrow> real option) \<Rightarrow> (string \<Rightarrow> int option) \<Rightarrow> string \<Rightarrow> string \<Rightarrow> side \<Rightarrow> real
   \<Rightarrow> validation" where
  "validateBid parseFloat parseInt bidAmount qtyText t minB =
     (if bidAmount = [] \<or> qtyText = [] then NoInput
      else (case parseFloat bidAmount of
              None \<Rightarrow> InvalidPrice
            | Some a \<Rightarrow>
                if a \<le> 0 then InvalidPrice
                else (case parseInt qtyText of
                        None \<Rightarrow> InvalidQuantity
                      | Some q \<Rightarrow>
                          if q \<le> 0 then InvalidQuantity
                          else if q > 10000 then QuantityTooLarge
                          else if a < minB then BelowMinimum minB
                          else if a > 1000000 then AboveMaximum
                          else if a * real_of_int q > 50000000 then OrderTooLarge
                          else ValidBid t a)))"


section \<open>The auction timer (\<open>Timer.tsx\<close>)\<close>

datatype timer_state = Ended | Critical | Warning | Normal

definition remaining :: "int \<Rightarrow> int \<Rightarrow> int" where
  "remaining endT now = max 0 ((endT - now) div 1000)"

text \<open>
  The status that the timer shows, from its \<open>isActive\<close> property and the two flags
  that it derives from the remaining seconds.
\<close>

definition timerStatus :: "bool \<Rightarrow> int \<Rightarrow> int \<Rightarrow> timer_state" where
  "timerStatus active endT now =
     (let r = remaining endT now;
          isWarning = (r \<le> 300 \<and> r > 60);
          isCritical = (r \<le> 60)
      in if \<not> active then Ended
         else if isCritical then Critical
         else if isWarning then Warning
         else Normal)"


section \<open>The placement orchestrator (\<open>AuctionContext\<close>)\<close>

definition getTimeRemaining :: "app_state \<Rightarrow> int \<Rightarrow> int" where
  "getTimeRemaining s now =
     (case auction s of
        None \<Rightarrow> 0
      | Some a \<Rightarrow> if \<not> isActive a then 0 else max 0 ((endTime a - now) div 1000))"

definition isAuctionActive :: "app_state \<Rightarrow> int \<Rightarrow> bool" where
  "isAuctionActive s now =
     (case auction s of
        None \<Rightarrow> False
      | Some a \<Rightarrow> isActive a \<and> getTimeRemaining s now > 0)"

text \<open>
  \<open>App.tsx\<close> renders the timer when there is an auction, with the end time of the
  auction, with \<open>isActive\<close> set to the value of \<open>isAuctionActive()\<close> at that render,
  and with an \<open>onTimeUp\<close> that does nothing. The timer's own ticks do not render the
  application again: \<open>renderNow\<close> is the time of the last render, \<open>tick\<close> the time of
  the timer's last tick.
\<close>

definition renderTimer :: "app_state \<Rightarrow> int \<Rightarrow> int \<Rightarrow> timer_state option" where
  "renderTimer s renderNow tick =
     (case auction s of
        None \<Rightarrow> None
      | Some a \<Rightarrow> Some (timerStatus (isAuctionActive s renderNow) (endTime a) tick))"

text \<open>
  What a call does besides changing the application state and the store: the toasts
  and the invoice, either handed to the invoice service or shown in the modal. (The
  emoji of the toast texts are left out.)
\<close>

datatype effect =
    ToastError string
  | ToastSuccess string
  | InvoiceSent string invoice "wa_event list" wa_response
  | InvoiceShown invoice

text \<open>
  The readings of the clock and the answers of the outside world during one call of
  \<open>placeBid\<close>: \<open>t_check\<close> is \<open>Date.now()\<close> in \<open>getTimeRemaining\<close>, \<open>t_bid\<close> the
  timestamp put into the bid, \<open>newId\<close> and \<open>serverNow\<close> the id and the time that the
  store gives the document, \<open>t_saved\<close> the timestamp of the bid that \<open>addBid\<close> returns,
  \<open>t_local_id\<close> and \<open>t_local\<close> the two readings for a local bid, \<open>t_invoice\<close> the
  time of the invoice.
\<close>

record place_env =
  t_check :: int
  t_bid :: int
  newId :: string
  serverNow :: int
  t_saved :: int
  t_local_id :: int
  t_local :: int
  t_invoice :: int
  net :: wa_net

record place_result =
  thrown :: "string option"
  r_state :: app_state
  r_store :: store
  r_effects :: "effect list"

definition traderName :: "user option \<Rightarrow> string" where
  "traderName u =
     (case u of
        None \<Rightarrow> ''Anonymous''
      | Some x \<Rightarrow> or_str (displayName x) (or_str (email x) ''Anonymous''))"

text \<open>
  \<open>sendWhatsAppInvoice\<close>. \<open>s\<close> is the state that the closure of \<open>placeBid\<close> sees
  (the state of the render), \<open>cur\<close> the state that the dispatched actions have
  reached.
\<close>

definition sendWhatsAppInvoice ::
  "bool \<Rightarrow> wa_service \<Rightarrow> (invoice \<Rightarrow> string) \<Rightarrow> place_env \<Rightarrow> app_state \<Rightarrow> app_state \<Rightarrow> bid
   \<Rightarrow> real \<Rightarrow> side \<Rightarrow> real \<Rightarrow> int \<Rightarrow> app_state \<times> effect list" where
  "sendWhatsAppInvoice e svc fmt env s cur savedBid amt t pl qty =
     (let iv = \<lparr> item = name (stock s), i_quantity = qty, price = amt, i_profitLoss = pl,
                 i_timestamp = t_invoice env, i_user = traderName (user s), i_bidType = t,
                 i_stockSymbol = symbol (stock s), i_bidId = Some (bidId savedBid) \<rparr>;
          phone = (case user s of None \<Rightarrow> None | Some u \<Rightarrow> phoneNumber u)
      in case phone of
           Some (c # cs) \<Rightarrow>
             (let (tr, resp) = sendInvoice svc (net env) fmt (c # cs) iv
              in (cur,
                  [InvoiceSent (c # cs) iv tr resp,
                   ToastSuccess (if success resp then ''Invoice sent to WhatsApp!''
                                 else ''Invoice simulated (check console)'')]))
         | _ \<Rightarrow>
             (auctionReducer e cur (SET_INVOICE_MODAL True (Some iv)),
              [InvoiceShown iv,
               ToastSuccess ''Invoice created (add phone number for WhatsApp)'']))"

text \<open>
  \<open>placeBid amount type quantity\<close>; a call without a quantity (\<open>None\<close>) uses the
  default of the parameter, \<open>10\<close>. Only \<open>addBid\<close> can throw inside the \<open>try\<close> block:
  the profit/loss update has its own \<open>try\<close>, and \<open>sendWhatsAppInvoice\<close> catches
  everything. The \<open>finally\<close> block is the last \<open>SET_LOADING\<close>.
\<close>

definition placeBid ::
  "bool \<Rightarrow> wa_service \<Rightarrow> (invoice \<Rightarrow> string) \<Rightarrow> place_env \<Rightarrow> store \<Rightarrow> app_state
   \<Rightarrow> real \<Rightarrow> side \<Rightarrow> int option \<Rightarrow> place_result" where
  "placeBid e svc fmt env st s amt t quantityArg =
     (let qty = (case quantityArg of None \<Rightarrow> 10 | Some q \<Rightarrow> q)
      in case user s of
        None \<Rightarrow>
          \<lparr> thrown = Some ''User not authenticated'', r_state = s, r_store = st,
            r_effects = [ToastError ''User not authenticated''] \<rparr>
      | Some u \<Rightarrow>
          if \<not> isAuctionActive s (t_check env) then
            \<lparr> thrown = Some ''Auction is not active'', r_state = s, r_store = st,
              r_effects = [ToastError ''Auction is not active''] \<rparr>
          else
            (let s1 = auctionReducer e (auctionReducer e s (SET_LOADING True)) (SET_ERROR None);
                 nb = \<lparr> n_userId = uid u, n_userName = traderName (Some u), n_amount = amt,
                        n_quantity = None, n_bidType = t, n_timestamp = t_bid env,
                        n_stockSymbol = symbol (stock s), n_status = None,
                        n_profitLoss = None \<rparr>
             in case addBid st (newId env) (serverNow env) (t_saved env) nb of
                  Inr (savedBid, st1) \<Rightarrow>
                    (let s2 = auctionReducer e s1 (ADD_BID savedBid);
                         pl = (if t = Buy
                               then (currentPrice (stock s) - amt) * real_of_int qty
                               else (amt - currentPrice (stock s)) * real_of_int qty);
                         newProfitLoss = userProfitLoss s + pl;
                         (s3, st2) =
                           (case updateUserProfitLoss st1 (uid u) pl of
                              Inr st' \<Rightarrow> (auctionReducer e s2 (UPDATE_PROFIT_LOSS newProfitLoss), st')
                            | Inl msg \<Rightarrow> (s2, st1));
                         (s4, effs) = sendWhatsAppInvoice e svc fmt env s s3 savedBid amt t pl qty
                     in \<lparr> thrown = None,
                          r_state = auctionReducer e s4 (SET_LOADING False), r_store = st2,
                          r_effects = effs @ [ToastSuccess (upper_side t @ '' bid placed successfully!'')] \<rparr>)
                | Inl msg \<Rightarrow>
                    if sublist ''permissions'' msg then
                      (let localBid =
                             \<lparr> bidId = ''local-'' @ show_int (t_local_id env), userId = uid u,
                               userName = traderName (Some u), amount = amt, quantity = None,
                               bidType = t, timestamp = t_local env,
                               stockSymbol = symbol (stock s), status = Some Active,
                               profitLoss = None \<rparr>;
                           s2 = auctionReducer e s1 (ADD_BID localBid);
                           pl = (if t = Buy
                                 then (currentPrice (stock s) - amt) * real_of_int qty
                                 else (amt - currentPrice (stock s)) * real_of_int qty);
                           newProfitLoss = userProfitLoss s + pl;
                           s3 = auctionReducer e s2 (UPDATE_PROFIT_LOSS newProfitLoss);
                           (s4, effs) = sendWhatsAppInvoice e svc fmt env s s3 localBid amt t pl qty
                       in \<lparr> thrown = None,
                            r_state = auctionReducer e s4 (SET_LOADING False), r_store = st,
                            r_effects = effs @ [ToastSuccess (upper_side t @ '' bid placed (demo mode)!'')] \<rparr>)
                    else
                      \<lparr> thrown = Some msg,
                        r_state = auctionReducer e (auctionReducer e s1 (SET_ERROR (Some msg)))
                                    (SET_LOADING False),
                        r_store = st,
                        r_effects = [ToastError (''Failed to place bid: '' @ msg)] \<rparr>))"

text \<open>The \<open>cancelBid\<close> of the context: the store first, then the local list.\<close>

definition cancelBid_ctx ::
  "bool \<Rightarrow> store \<Rightarrow> app_state \<Rightarrow> string \<Rightarrow> string + (app_state \<times> store)" where
  "cancelBid_ctx e st s i =
     (case user s of
        None \<Rightarrow> Inl ''User not authenticated''
      | Some u \<Rightarrow>
          (case cancelBid st i (uid u) of
             Inl msg \<Rightarrow> Inl msg
           | Inr st' \<Rightarrow>
               Inr (auctionReducer e s
                      (UPDATE_BID i \<lparr> u_bidId = None, u_userId = None, u_userName = None,
                         u_amount = None, u_quantity = None, u_bidType = None,
                         u_timestamp = None, u_stockSymbol = None,
                         u_status = Some Cancelled, u_profitLoss = None \<rparr>), st')))"


section \<open>Observations\<close>

text \<open>The invoices that a call dispatched, in order.\<close>

fun invoices_of :: "effect list \<Rightarrow> invoice list" where
  "invoices_of [] = []"
| "invoices_of (InvoiceSent p iv tr r # es) = iv # invoices_of es"
| "invoices_of (InvoiceShown iv # es) = iv # invoices_of es"
| "invoices_of (ToastError m # es) = invoices_of es"
| "invoices_of (ToastSuccess m # es) = invoices_of es"

text \<open>A numeric field of a user's document; a missing document or field reads \<open>0\<close>.\<close>

definition user_field :: "store \<Rightarrow> string \<Rightarrow> string \<Rightarrow> real" where
  "user_field st u f =
     (case usersCol st u of
        None \<Rightarrow> 0
      | Some d \<Rightarrow> (case d f of None \<Rightarrow> 0 | Some x \<Rightarrow> x))"

text \<open>The status of a bid in the store.\<close>

definition stored_status :: "store \<Rightarrow> string \<Rightarrow> status option" where
  "stored_status st i = (case map_of (bidsCol st) i of None \<Rightarrow> None | Some d \<Rightarrow> d_status d)"

text \<open>The events of a trace that are attempts at the direct provider API.\<close>

fun is_twilio :: "wa_event \<Rightarrow> bool" where
  "is_twilio (TwilioPost f t b) = True"
| "is_twilio (RelayPost u t b) = False"
| "is_twilio (Simulated t b) = False"
| "is_twilio (Delay n) = False"


section \<open>A sample session\<close>

text \<open>
  The concrete inputs at which the properties below are evaluated: a signed-in trader without a
  phone number, the demo auction of five minutes started at time \<open>0\<close>, the initial
  stock at 150.00, a store that serves every request and holds the trader's profile,
  and an invoice service without any configuration.
\<close>

definition ex_user :: user where
  "ex_user = \<lparr> uid = ''u1'', email = ''asha@example.org'', displayName = ''Asha'',
               phoneNumber = None \<rparr>"

definition ex_auction :: auction where
  "ex_auction = \<lparr> auctionId = ''demo-auction-0'', a_stockSymbol = ''AAPL'', startPrice = 150,
                  a_currentPrice = 150, startTime = 0, endTime = 300000, duration = 300,
                  isActive = True, totalBids = 0, participants = [] \<rparr>"

definition ex_state :: app_state where
  "ex_state = (initialState False)\<lparr> user := Some ex_user, authInitialized := True,
                firebaseConnected := True, auction := Some ex_auction \<rparr>"

definition ex_env :: place_env where
  "ex_env = \<lparr> t_check = 1000, t_bid = 1001, newId = ''doc1'', serverNow = 1005,
              t_saved = 1010, t_local_id = 1020, t_local = 1021, t_invoice = 1030,
              net = \<lparr> relay = FetchError ''Failed to fetch'',
                      twilio = FetchError ''Failed to fetch'', t_sim = 1040 \<rparr> \<rparr>"

definition ex_store :: store where
  "ex_store = \<lparr> bidsCol = [],
                usersCol = [''u1'' \<mapsto> [''profitLoss'' \<mapsto> 0, ''totalBids'' \<mapsto> 0, ''activeBids'' \<mapsto> 0]],
                auctionsCol = Map.empty,
                rules = (\<lambda>c a. None) \<rparr>"

text \<open>The same store when its rules refuse every write to the bids.\<close>

definition ex_store_denied :: store where
  "ex_store_denied = ex_store\<lparr> rules := (\<lambda>c a.
      if c = BidsC \<and> a = Write then Some ''Missing or insufficient permissions.'' else None) \<rparr>"

definition ex_service :: wa_service where
  "ex_service = WhatsAppService None None None None None"

definition ex_fmt :: "invoice \<Rightarrow> string" where
  "ex_fmt iv = ''STOCK AUCTION INVOICE''"


text \<open>
  Two buy bids of the same amount in the order in which the reducer keeps them (newest
  first): \<open>late\<close> was placed a second after \<open>early\<close>.
\<close>

definition ex_bid_late :: bid where
  "ex_bid_late = \<lparr> bidId = ''late'', userId = ''u1'', userName = ''Asha'', amount = 151,
                   quantity = None, bidType = Buy, timestamp = 2000, stockSymbol = ''AAPL'',
                   status = Some Active, profitLoss = None \<rparr>"

definition ex_bid_early :: bid where
  "ex_bid_early = \<lparr> bidId = ''early'', userId = ''u2'', userName = ''Ravi'', amount = 151,
                    quantity = None, bidType = Buy, timestamp = 1000, stockSymbol = ''AAPL'',
                    status = Some Active, profitLoss = None \<rparr>"

text \<open>
  A store that holds one active buy bid \<open>b1\<close> of the trader, whose profile counts one
  active bid; the same store when its rules refuse the writes to the users; and the two
  stores after the trader has cancelled the bid.
\<close>

definition ex_doc :: bid_doc where
  "ex_doc = \<lparr> d_userId = ''u1'', d_userName = ''Asha'', d_amount = 151, d_quantity = Some 10,
              d_bidType = Buy, d_timestamp = Some 1005, d_stockSymbol = ''AAPL'',
              d_status = Some Active, d_profitLoss = None \<rparr>"

definition ex_store_b1 :: store where
  "ex_store_b1 = ex_store\<lparr> bidsCol := [(''b1'', ex_doc)],
      usersCol := [''u1'' \<mapsto> [''profitLoss'' \<mapsto> 0, ''totalBids'' \<mapsto> 1, ''activeBids'' \<mapsto> 1]] \<rparr>"

definition ex_store_b1_users_ro :: store where
  "ex_store_b1_users_ro = ex_store_b1\<lparr> rules := (\<lambda>c a.
      if c = UsersC \<and> a = Write then Some ''Missing or insufficient permissions.'' else None) \<rparr>"

definition ex_cancelled :: "string + store" where
  "ex_cancelled = cancelBid ex_store_b1 ''b1'' ''u1''"

definition ex_cancelled_users_ro :: "string + store" where
  "ex_cancelled_users_ro = cancelBid ex_store_b1_users_ro ''b1'' ''u1''"

text \<open>The live list that a subscriber receives after the cancellation.\<close>

definition ex_stream :: "bid list" where
  "ex_stream = subscribeToBids (projr ex_cancelled) 2000 ''AAPL'' 50"

text \<open>A placement of 5 shares, and what is read back from the store after it.\<close>

definition ex_placed :: place_result where
  "ex_placed = placeBid False ex_service ex_fmt ex_env ex_store ex_state 152 Sell (Some 5)"

definition ex_read_back :: "bid list" where
  "ex_read_back = getBids (r_store ex_placed) 2000 ''AAPL'' 50"

text \<open>A placement one second after the end of the auction.\<close>

definition ex_late_env :: place_env where
  "ex_late_env = ex_env\<lparr> t_check := 301000 \<rparr>"

definition ex_placed_late :: place_result where
  "ex_placed_late = placeBid False ex_service ex_fmt ex_late_env ex_store ex_state 151 Buy (Some 10)"

text \<open>
  An invoice service with the relay switched on and the provider's credentials set; the
  relay is down, the provider would answer.
\<close>

definition ex_service_both :: wa_service where
  "ex_service_both =
     WhatsAppService (Some ''AC0123456789'') (Some ''token'') None None (Some ''true'')"

definition ex_net_relay_down :: wa_net where
  "ex_net_relay_down = \<lparr> relay = FetchError ''Failed to fetch'',
                         twilio = HttpResponse True (Some ''SM1''), t_sim = 1040 \<rparr>"

definition ex_invoice :: invoice where
  "ex_invoice = \<lparr> item = ''Apple Inc.'', i_quantity = 10, price = 151, i_profitLoss = - 10,
                  i_timestamp = 1030, i_user = ''Asha'', i_bidType = Buy,
                  i_stockSymbol = ''AAPL'', i_bidId = Some ''doc1'' \<rparr>"

definition ex_delivery :: "wa_event list \<times> wa_response" where
  "ex_delivery = sendInvoice ex_service_both ex_net_relay_down ex_fmt ''+91 98765 43210'' ex_invoice"

text \<open>The highest bid at the ceiling of the form, and the highest bid of the example.\<close>

definition ex_top_bid :: bid where
  "ex_top_bid = ex_bid_late\<lparr> amount := 1000000 \<rparr>"

definition ex_high_bid :: bid where
  "ex_high_bid = ex_bid_late\<lparr> amount := 151 \<rparr>"


section \<open>Sorting lemmas\<close>

lemma set_insert_cmp: "set (insert_cmp cmp x xs) = insert x (set xs)"
  by (induction xs) auto

lemma set_js_sort: "set (js_sort cmp xs) = set xs"
  by (induction xs) (auto simp: set_insert_cmp)

lemma sorted_wrt_insert_key:
  fixes key :: "'a \<Rightarrow> real"
  assumes "sorted_wrt (\<lambda>a b. key a \<le> key b) xs"
  shows "sorted_wrt (\<lambda>a b. key a \<le> key b) (insert_cmp (\<lambda>a b. key a - key b) x xs)"
  using assms
proof (induction xs)
  case Nil
  then show ?case by simp
next
  case (Cons y ys)
  show ?case
  proof (cases "key x \<le> key y")
    case True
    with Cons.prems show ?thesis by auto
  next
    case False
    with Cons show ?thesis by (auto simp: set_insert_cmp)
  qed
qed

lemma sorted_wrt_js_sort_key:
  fixes key :: "'a \<Rightarrow> real"
  shows "sorted_wrt (\<lambda>a b. key a \<le> key b) (js_sort (\<lambda>a b. key a - key b) xs)"
  by (induction xs) (simp_all add: sorted_wrt_insert_key)

lemma sorted_wrt_take: "sorted_wrt P xs \<Longrightarrow> sorted_wrt P (take n xs)"
  by (metis append_take_drop_id sorted_wrt_append)


section \<open>The reducer keeps the bids newest first\<close>

text \<open>
  C10. After an \<open>ADD_BID\<close> action the bids of the resulting state are in non-increasing
  order of timestamp, whatever the timestamp of the added bid and whatever the order
  of the list before.
\<close>

theorem C10_add_bid_sorted:
  "sorted_wrt (\<lambda>a b. timestamp a \<ge> timestamp b) (bids (auctionReducer e s (ADD_BID x)))"
proof -
  have "sorted_wrt (\<lambda>a b. - real_of_int (timestamp a) \<le> - real_of_int (timestamp b))
          (js_sort (\<lambda>a b. - real_of_int (timestamp a) - (- real_of_int (timestamp b)))
             (x # bids s))"
    by (rule sorted_wrt_js_sort_key)
  then show ?thesis by simp
qed

section \<open>The profit/loss of a placement\<close>

lemma invoices_of_append: "invoices_of (xs @ ys) = invoices_of xs @ invoices_of ys"
  by (induction xs rule: invoices_of.induct) simp_all

lemma invoices_sendWhatsAppInvoice:
  "map i_profitLoss (invoices_of (snd (sendWhatsAppInvoice e svc fmt env s cur b amt t pl qty))) = [pl]"
  "map i_quantity (invoices_of (snd (sendWhatsAppInvoice e svc fmt env s cur b amt t pl qty))) = [qty]"
  "map i_bidId (invoices_of (snd (sendWhatsAppInvoice e svc fmt env s cur b amt t pl qty))) = [Some (bidId b)]"
  by (auto simp: sendWhatsAppInvoice_def Let_def split: option.splits list.splits prod.splits)

lemma userProfitLoss_sendWhatsAppInvoice:
  "userProfitLoss (fst (sendWhatsAppInvoice e svc fmt env s cur b amt t pl qty)) = userProfitLoss cur"
  by (auto simp: sendWhatsAppInvoice_def Let_def split: option.splits list.splits prod.splits)

lemma bids_sendWhatsAppInvoice:
  "bids (fst (sendWhatsAppInvoice e svc fmt env s cur b amt t pl qty)) = bids cur"
  by (auto simp: sendWhatsAppInvoice_def Let_def split: option.splits list.splits prod.splits)

lemma user_field_updateUserStats:
  "f \<noteq> g \<Longrightarrow> user_field (updateUserStats st u g v) w f = user_field st w f"
  by (auto simp: updateUserStats_def updateUserDoc_def user_field_def increment_def
      split: option.splits sum.splits)

lemma user_field_updateUserBidCount:
  "f \<noteq> ''totalBids'' \<Longrightarrow> user_field (updateUserBidCount st u) w f = user_field st w f"
  by (auto simp: updateUserBidCount_def updateUserDoc_def user_field_def increment_def
      split: option.splits sum.splits)

lemma user_field_updateAuctionStats:
  "user_field (updateAuctionStats st a x) w f = user_field st w f"
  by (auto simp: updateAuctionStats_def user_field_def split: option.splits)

lemma rules_updateUserStats: "rules (updateUserStats st u g v) = rules st"
  by (auto simp: updateUserStats_def updateUserDoc_def split: option.splits sum.splits)

lemma rules_updateUserBidCount: "rules (updateUserBidCount st u) = rules st"
  by (auto simp: updateUserBidCount_def updateUserDoc_def split: option.splits sum.splits)

lemma rules_updateAuctionStats: "rules (updateAuctionStats st a x) = rules st"
  by (auto simp: updateAuctionStats_def split: option.splits)

lemma user_field_bidsCol: "user_field (st\<lparr>bidsCol := x\<rparr>) w f = user_field st w f"
  by (simp add: user_field_def)

lemma addBid_ok:
  assumes "rules st BidsC Write = None"
  shows "\<exists>b st1. addBid st i sn n nb = Inr (b, st1) \<and> rules st1 = rules st
           \<and> user_field st1 w ''profitLoss'' = user_field st w ''profitLoss''
           \<and> bidId b = i \<and> quantity b = n_quantity nb"
  using assms
  by (simp add: addBid_def Let_def rules_updateAuctionStats rules_updateUserStats
      rules_updateUserBidCount user_field_updateAuctionStats user_field_updateUserStats
      user_field_updateUserBidCount user_field_bidsCol)

lemma updateUserProfitLoss_ok:
  assumes "rules st UsersC Read = None" "rules st UsersC Write = None"
  shows "\<exists>st'. updateUserProfitLoss st u v = Inr st'
           \<and> user_field st' u ''profitLoss'' = user_field st u ''profitLoss'' + v"
  using assms
  by (auto simp: updateUserProfitLoss_def updateUserDoc_def user_field_def increment_def
      split: option.splits)

text \<open>
  C3. A placement that the store accepts does not fail, and the profit/loss that it
  hands to the invoice, adds to the trader's total in the application state and adds
  to the trader's profile in the store is \<open>(currentPrice - amount) * quantity\<close> for
  a buy and \<open>(amount - currentPrice) * quantity\<close> for a sell. (The update of the total
  and of the profile happens when the store serves the users collection.) A buy at
  151.00 of 10 against 150.00 gives -10.00, a sell at 152.00 of 5 gives +10.00.
\<close>

theorem C3_profit_loss:
  assumes "user s = Some u" and "isAuctionActive s (t_check env)"
    and "rules st BidsC Write = None"
  shows "let r = placeBid e svc fmt env st s amt t q;
             qty = (case q of None \<Rightarrow> 10 | Some n \<Rightarrow> n);
             pl = (case t of Buy \<Rightarrow> (currentPrice (stock s) - amt) * real_of_int qty
                          | Sell \<Rightarrow> (amt - currentPrice (stock s)) * real_of_int qty)
         in thrown r = None
          \<and> map i_profitLoss (invoices_of (r_effects r)) = [pl]
          \<and> (rules st UsersC Read = None \<and> rules st UsersC Write = None \<longrightarrow>
               userProfitLoss (r_state r) = userProfitLoss s + pl
             \<and> user_field (r_store r) (uid u) ''profitLoss''
                 = user_field st (uid u) ''profitLoss'' + pl)"
proof -
  define qty where "qty = (case q of None \<Rightarrow> 10 | Some n \<Rightarrow> n)"
  define pl where "pl = (if t = Buy then (currentPrice (stock s) - amt) * real_of_int qty
                         else (amt - currentPrice (stock s)) * real_of_int qty)"
  have pl_case: "(case t of Buy \<Rightarrow> (currentPrice (stock s) - amt) * real_of_int qty
                          | Sell \<Rightarrow> (amt - currentPrice (stock s)) * real_of_int qty) = pl"
    by (cases t) (simp_all add: pl_def)
  obtain b st1 where ab: "addBid st (newId env) (serverNow env) (t_saved env)
      \<lparr> n_userId = uid u, n_userName = traderName (Some u), n_amount = amt,
        n_quantity = None, n_bidType = t, n_timestamp = t_bid env,
        n_stockSymbol = symbol (stock s), n_status = None, n_profitLoss = None \<rparr> = Inr (b, st1)"
    and r1: "rules st1 = rules st"
    and f1: "user_field st1 (uid u) ''profitLoss'' = user_field st (uid u) ''profitLoss''"
    using addBid_ok[OF assms(3)] by blast
  let ?r = "placeBid e svc fmt env st s amt t q"
  have thr: "thrown ?r = None"
    using assms(1,2) ab
    by (simp add: placeBid_def Let_def split_beta)
  have iv: "map i_profitLoss (invoices_of (r_effects ?r)) = [pl]"
    using assms(1,2) ab
    by (simp add: placeBid_def Let_def split_beta invoices_of_append
        invoices_sendWhatsAppInvoice pl_def qty_def)
  have ok: "userProfitLoss (r_state ?r) = userProfitLoss s + pl
        \<and> user_field (r_store ?r) (uid u) ''profitLoss''
            = user_field st (uid u) ''profitLoss'' + pl"
    if "rules st UsersC Read = None \<and> rules st UsersC Write = None"
  proof -
    from that r1 have "rules st1 UsersC Read = None" "rules st1 UsersC Write = None"
      by simp_all
    from updateUserProfitLoss_ok[OF this, of "uid u" pl]
    obtain st2 where u2: "updateUserProfitLoss st1 (uid u) pl = Inr st2"
      and f2: "user_field st2 (uid u) ''profitLoss'' = user_field st1 (uid u) ''profitLoss'' + pl"
      by blast
    show ?thesis
      using assms(1,2) ab u2 f2 f1
      by (simp add: placeBid_def Let_def split_beta userProfitLoss_sendWhatsAppInvoice
          flip: pl_def qty_def)
  qed
  show ?thesis
    unfolding Let_def pl_case[unfolded qty_def]
    using thr iv ok by blast
qed


theorem C3_profit_loss_witness:
  "user ex_state = Some ex_user \<and> isAuctionActive ex_state (t_check ex_env)
   \<and> rules ex_store BidsC Write = None
   \<and> thrown (placeBid False ex_service ex_fmt ex_env ex_store ex_state 151 Buy (Some 10)) = None
   \<and> map i_profitLoss (invoices_of (r_effects
        (placeBid False ex_service ex_fmt ex_env ex_store ex_state 151 Buy (Some 10)))) = [- 10]
   \<and> userProfitLoss (r_state
        (placeBid False ex_service ex_fmt ex_env ex_store ex_state 151 Buy (Some 10))) = - 10
   \<and> map i_profitLoss (invoices_of (r_effects
        (placeBid False ex_service ex_fmt ex_env ex_store ex_state 152 Sell (Some 5)))) = [10]
   \<and> user_field (r_store
        (placeBid False ex_service ex_fmt ex_env ex_store ex_state 152 Sell (Some 5)))
        ''u1'' ''profitLoss'' = 10"
proof -
  have h1: "user ex_state = Some ex_user" by (simp add: ex_state_def)
  have h2: "isAuctionActive ex_state (t_check ex_env)"
    by (simp add: isAuctionActive_def getTimeRemaining_def ex_state_def ex_auction_def ex_env_def)
  have h3: "rules ex_store BidsC Write = None" by (simp add: ex_store_def)
  have cp: "currentPrice (stock ex_state) = 150" "userProfitLoss ex_state = 0"
    by (simp_all add: ex_state_def initialState_def)
  have us: "rules ex_store UsersC Read = None" "rules ex_store UsersC Write = None"
    "user_field ex_store ''u1'' ''profitLoss'' = 0" "uid ex_user = ''u1''"
    by (simp_all add: ex_store_def user_field_def ex_user_def)
  show ?thesis
    using h1 h2 h3
      C3_profit_loss[OF h1 h2 h3, of False ex_service ex_fmt 151 Buy "Some 10"]
      C3_profit_loss[OF h1 h2 h3, of False ex_service ex_fmt 152 Sell "Some 5"]
    by (simp add: Let_def cp us)
qed

section \<open>The order book\<close>

lemma buyBids_sorted: "sorted_wrt (\<lambda>a b. amount a \<ge> amount b) (buyBids bs)"
proof -
  have "sorted_wrt (\<lambda>a b. - amount a \<le> - amount b)
          (js_sort (\<lambda>a b. - amount a - (- amount b))
             (filter (\<lambda>b. bidType b = Buy) (activeBids bs)))"
    by (rule sorted_wrt_js_sort_key)
  then show ?thesis
    by (simp add: buyBids_def slice0_def sorted_wrt_take)
qed

lemma sellBids_sorted: "sorted_wrt (\<lambda>a b. amount a \<le> amount b) (sellBids bs)"
  unfolding sellBids_def slice0_def
  by (rule sorted_wrt_take) (rule sorted_wrt_js_sort_key)

lemma buyBids_subset: "set (buyBids bs) \<subseteq> {b \<in> set bs. isActiveBid b \<and> bidType b = Buy}"
  unfolding buyBids_def slice0_def activeBids_def
  using set_take_subset[of 5] by (fastforce simp: set_js_sort)

lemma sellBids_subset: "set (sellBids bs) \<subseteq> {b \<in> set bs. isActiveBid b \<and> bidType b = Sell}"
  unfolding sellBids_def slice0_def activeBids_def
  using set_take_subset[of 5] by (fastforce simp: set_js_sort)

text \<open>
  C1. The two sides of the order book are sorted by amount (lemmas \<open>buyBids_sorted\<close>
  and \<open>sellBids_sorted\<close>), but their comparators look at the amount only: two buy
  bids of 151.00 (and two sell bids alike) stay in the order of the list they came in,
  here the later one first.
  The leaderboard, whose comparator has the timestamp as its second key, puts the
  earlier one first on the same list.
\<close>

theorem C1_tie_keeps_input_order:
  "timestamp ex_bid_early < timestamp ex_bid_late
   \<and> amount ex_bid_early = amount ex_bid_late
   \<and> buyBids [ex_bid_late, ex_bid_early] = [ex_bid_late, ex_bid_early]
   \<and> sellBids [ex_bid_late\<lparr>bidType := Sell\<rparr>, ex_bid_early\<lparr>bidType := Sell\<rparr>]
       = [ex_bid_late\<lparr>bidType := Sell\<rparr>, ex_bid_early\<lparr>bidType := Sell\<rparr>]
   \<and> leaderboard [ex_bid_late, ex_bid_early] = [ex_bid_early, ex_bid_late]"
  by (simp add: buyBids_def sellBids_def activeBids_def isActiveBid_def slice0_def
      leaderboard_def leaderboard_cmp_def ex_bid_late_def ex_bid_early_def)

lemma ex_cancelled_eq:
  "ex_cancelled = Inr (ex_store\<lparr> bidsCol := [(''b1'', ex_doc\<lparr>d_status := Some Cancelled\<rparr>)],
      usersCol := [''u1'' \<mapsto> [''profitLoss'' \<mapsto> 0, ''totalBids'' \<mapsto> 1, ''activeBids'' \<mapsto> 0]] \<rparr>)"
  by (simp add: ex_cancelled_def cancelBid_def ex_store_b1_def ex_store_def ex_doc_def
      updateBidDoc_def updateUserStats_def updateUserDoc_def increment_def fun_upd_twist)

text \<open>
  C2. In the store the cancelled bid \<open>b1\<close> has the status \<open>cancelled\<close>, but the
  objects that \<open>subscribeToBids\<close> builds carry no status: the order book computed
  from the live list ranks the cancelled bid on the buy side, and the history lists it
  without a status.
\<close>

theorem C2_cancelled_bid_in_live_ranking:
  "stored_status (projr ex_cancelled) ''b1'' = Some Cancelled
   \<and> map bidId (buyBids ex_stream) = [''b1'']
   \<and> map bidId (filteredBids False FilterAll (Some ''u1'') ex_stream) = [''b1'']
   \<and> map status (filteredBids False FilterAll (Some ''u1'') ex_stream) = [None]"
proof -
  note c = ex_cancelled_eq
  have s: "ex_stream = [\<lparr> bidId = ''b1'', userId = ''u1'', userName = ''Asha'', amount = 151,
      quantity = Some 10, bidType = Buy, timestamp = 1005, stockSymbol = ''AAPL'',
      status = None, profitLoss = None \<rparr>]"
    by (simp add: ex_stream_def c subscribeToBids_def bidsQuery_def bid_of_doc_def ex_store_def
        ex_doc_def)
  show ?thesis
    by (simp add: s c stored_status_def buyBids_def activeBids_def isActiveBid_def slice0_def
        filteredBids_def)
qed

section \<open>Cancellation\<close>

lemma map_of_update_doc:
  "map_of (map (\<lambda>(k, d). if k = i then (k, f d) else (k, d)) xs) j
     = (if j = i then map_option f (map_of xs i) else map_of xs j)"
  by (induction xs) auto

lemma cancelBid_Inr_iff:
  "cancelBid st i r = Inr st' \<longleftrightarrow>
     (\<exists>d. rules st BidsC Read = None \<and> rules st BidsC Write = None
        \<and> map_of (bidsCol st) i = Some d \<and> d_userId d = r \<and> d_status d = Some Active
        \<and> st' = updateUserStats
             (st\<lparr>bidsCol := map (\<lambda>(k, d). if k = i then (k, d\<lparr>d_status := Some Cancelled\<rparr>)
                                          else (k, d)) (bidsCol st)\<rparr>) r ''activeBids'' (- 1))"
  by (auto simp: cancelBid_def updateBidDoc_def split: option.splits sum.splits if_splits)

lemma bidsCol_updateUserStats: "bidsCol (updateUserStats st u g v) = bidsCol st"
  by (auto simp: updateUserStats_def updateUserDoc_def split: option.splits sum.splits)

lemma user_field_stats_ok:
  "rules st UsersC Write = None \<Longrightarrow> usersCol st u \<noteq> None \<Longrightarrow>
   user_field (updateUserStats st u g v) u g = user_field st u g + v"
  by (auto simp: updateUserStats_def updateUserDoc_def user_field_def increment_def
      split: option.splits sum.splits)

text \<open>
  C5. A cancellation succeeds only for the owner of a bid whose status is \<open>active\<close>; a
  requester who does not own the bid (or names no bid at all) is rejected whatever the
  status is; the owner's request for an active bid succeeds when the store serves the
  bids collection. After a successful cancellation the status of the bid in the store is
  \<open>cancelled\<close>, and the owner's \<open>activeBids\<close> counter is one less when the update of
  the owner's profile succeeds (the rules allow the write and the profile exists).
\<close>

theorem C5_cancel:
  "(\<forall>st'. cancelBid st i r = Inr st' \<longrightarrow>
       (\<exists>d. map_of (bidsCol st) i = Some d \<and> d_userId d = r \<and> d_status d = Some Active)
     \<and> stored_status st' i = Some Cancelled
     \<and> (rules st UsersC Write = None \<and> usersCol st r \<noteq> None \<longrightarrow>
          user_field st' r ''activeBids'' = user_field st r ''activeBids'' - 1))
   \<and> ((\<forall>d. map_of (bidsCol st) i = Some d \<longrightarrow> d_userId d \<noteq> r) \<longrightarrow> isl (cancelBid st i r))
   \<and> ((\<exists>d. map_of (bidsCol st) i = Some d \<and> d_userId d = r \<and> d_status d = Some Active)
        \<and> rules st BidsC Read = None \<and> rules st BidsC Write = None
        \<longrightarrow> \<not> isl (cancelBid st i r))"
proof (intro conjI allI impI)
  fix st'
  assume ok: "cancelBid st i r = Inr st'"
  then obtain d where d: "map_of (bidsCol st) i = Some d" "d_userId d = r"
      "d_status d = Some Active"
    and st': "st' = updateUserStats
             (st\<lparr>bidsCol := map (\<lambda>(k, d). if k = i then (k, d\<lparr>d_status := Some Cancelled\<rparr>)
                                          else (k, d)) (bidsCol st)\<rparr>) r ''activeBids'' (- 1)"
    unfolding cancelBid_Inr_iff by blast
  show "\<exists>d. map_of (bidsCol st) i = Some d \<and> d_userId d = r \<and> d_status d = Some Active"
    using d by blast
  show "stored_status st' i = Some Cancelled"
    using d by (simp add: st' stored_status_def bidsCol_updateUserStats map_of_update_doc)
  show "user_field st' r ''activeBids'' = user_field st r ''activeBids'' - 1"
    if "rules st UsersC Write = None \<and> usersCol st r \<noteq> None"
    using that by (simp add: st' user_field_stats_ok user_field_bidsCol)
next
  assume "\<forall>d. map_of (bidsCol st) i = Some d \<longrightarrow> d_userId d \<noteq> r"
  then show "isl (cancelBid st i r)"
    by (auto simp: cancelBid_def split: option.splits)
next
  assume "(\<exists>d. map_of (bidsCol st) i = Some d \<and> d_userId d = r \<and> d_status d = Some Active)
        \<and> rules st BidsC Read = None \<and> rules st BidsC Write = None"
  then show "\<not> isl (cancelBid st i r)"
    by (auto simp: cancelBid_def updateBidDoc_def split: option.splits)
qed

theorem C5_cancel_witness:
  "cancelBid ex_store_b1 ''b1'' ''u1'' = ex_cancelled
   \<and> \<not> isl ex_cancelled
   \<and> stored_status (projr ex_cancelled) ''b1'' = Some Cancelled
   \<and> user_field ex_store_b1 ''u1'' ''activeBids'' = 1
   \<and> user_field (projr ex_cancelled) ''u1'' ''activeBids'' = 0
   \<and> isl (cancelBid ex_store_b1 ''b1'' ''u2'')
   \<and> isl (cancelBid (projr ex_cancelled) ''b1'' ''u2'')
   \<and> isl (cancelBid (projr ex_cancelled) ''b1'' ''u1'')"
proof -
  let ?st' = "ex_store\<lparr> bidsCol := [(''b1'', ex_doc\<lparr>d_status := Some Cancelled\<rparr>)],
      usersCol := [''u1'' \<mapsto> [''profitLoss'' \<mapsto> 0, ''totalBids'' \<mapsto> 1, ''activeBids'' \<mapsto> 0]] \<rparr>"
  have e: "ex_cancelled = Inr ?st'"
    by (rule ex_cancelled_eq)
  have a: "cancelBid ex_store_b1 ''b1'' ''u1'' = Inr ?st'"
    using e by (simp only: ex_cancelled_def)
  have m: "rules ex_store_b1 UsersC Write = None" "usersCol ex_store_b1 ''u1'' \<noteq> None"
    "user_field ex_store_b1 ''u1'' ''activeBids'' = 1"
    by (simp_all add: ex_store_b1_def ex_store_def user_field_def)
  have b: "\<forall>d. map_of (bidsCol ex_store_b1) ''b1'' = Some d \<longrightarrow> d_userId d \<noteq> ''u2''"
    "\<forall>d. map_of (bidsCol ?st') ''b1'' = Some d \<longrightarrow> d_userId d \<noteq> ''u2''"
    by (simp_all add: ex_store_b1_def ex_store_def ex_doc_def)
  have c: "isl (cancelBid ?st' ''b1'' ''u1'')"
    by (simp add: cancelBid_def ex_store_def ex_doc_def)
  from C5_cancel[of ex_store_b1 "''b1''" "''u1''"] a m
  have 1: "stored_status ?st' ''b1'' = Some Cancelled"
    "user_field ?st' ''u1'' ''activeBids'' = 0"
    by simp_all
  from C5_cancel[of ex_store_b1 "''b1''" "''u2''"] b(1)
  have 2: "isl (cancelBid ex_store_b1 ''b1'' ''u2'')" by blast
  from C5_cancel[of ?st' "''b1''" "''u2''"] b(2)
  have 3: "isl (cancelBid ?st' ''b1'' ''u2'')" by blast
  show ?thesis
    using a 1 2 3 c m(3) by (simp add: e)
qed

text \<open>
  Without the condition on the profile update the property fails. Where the store
  refuses the write to the owner's profile,
  the cancellation succeeds, the bid is cancelled, and the counter is still 1.
\<close>

theorem C5_counter_not_decremented:
  "\<not> isl ex_cancelled_users_ro
   \<and> stored_status (projr ex_cancelled_users_ro) ''b1'' = Some Cancelled
   \<and> user_field ex_store_b1_users_ro ''u1'' ''activeBids'' = 1
   \<and> user_field (projr ex_cancelled_users_ro) ''u1'' ''activeBids'' = 1"
  by (simp add: ex_cancelled_users_ro_def ex_store_b1_users_ro_def cancelBid_def ex_store_b1_def
      ex_store_def ex_doc_def updateBidDoc_def updateUserStats_def updateUserDoc_def
      stored_status_def user_field_def)

section \<open>The degraded path and the closed auction\<close>

lemma sublist_prefixed: "sublist xs ys \<Longrightarrow> sublist xs (ps @ ys)"
  unfolding sublist_def by (metis append.assoc)

lemma addBid_denied:
  "rules st BidsC Write = Some msg \<Longrightarrow> addBid st i sn n nb = Inl (''Failed to place bid: '' @ msg)"
  by (simp add: addBid_def)

text \<open>
  C6. When the store refuses the insert of the bid with a permission error, the call
  does not fail: a bid with the local id \<open>local-<time>\<close> and the status \<open>active\<close> is
  added to the bids of the application state and not to the store, the profit/loss is
  computed by the same formula and added to the trader's total, and one invoice with
  this profit/loss and the local id is dispatched.
\<close>

theorem C6_local_bid_on_permission_error:
  assumes "user s = Some u" and "isAuctionActive s (t_check env)"
    and "rules st BidsC Write = Some msg" and "sublist ''permissions'' msg"
  shows "let r = placeBid e svc fmt env st s amt t q;
             qty = (case q of None \<Rightarrow> 10 | Some n \<Rightarrow> n);
             pl = (case t of Buy \<Rightarrow> (currentPrice (stock s) - amt) * real_of_int qty
                          | Sell \<Rightarrow> (amt - currentPrice (stock s)) * real_of_int qty);
             localBid = \<lparr> bidId = ''local-'' @ show_int (t_local_id env), userId = uid u,
                          userName = traderName (Some u), amount = amt, quantity = None,
                          bidType = t, timestamp = t_local env,
                          stockSymbol = symbol (stock s), status = Some Active,
                          profitLoss = None \<rparr>
         in thrown r = None
          \<and> set (bids (r_state r)) = insert localBid (set (bids s))
          \<and> r_store r = st
          \<and> userProfitLoss (r_state r) = userProfitLoss s + pl
          \<and> map i_profitLoss (invoices_of (r_effects r)) = [pl]
          \<and> map i_bidId (invoices_of (r_effects r)) = [Some (''local-'' @ show_int (t_local_id env))]"
proof -
  define qty where "qty = (case q of None \<Rightarrow> 10 | Some n \<Rightarrow> n)"
  define pl where "pl = (if t = Buy then (currentPrice (stock s) - amt) * real_of_int qty
                         else (amt - currentPrice (stock s)) * real_of_int qty)"
  have pl_case: "(case t of Buy \<Rightarrow> (currentPrice (stock s) - amt) * real_of_int qty
                          | Sell \<Rightarrow> (amt - currentPrice (stock s)) * real_of_int qty) = pl"
    by (cases t) (simp_all add: pl_def)
  have perm: "sublist ''permissions'' (''Failed to place bid: '' @ msg)"
    using assms(4) by (rule sublist_prefixed)
  note ab = addBid_denied[OF assms(3)]
  let ?r = "placeBid e svc fmt env st s amt t q"
  have 1: "thrown ?r = None" "r_store ?r = st"
    using assms(1,2) ab perm by (simp_all add: placeBid_def Let_def split_beta)
  have 2: "set (bids (r_state ?r)) = insert \<lparr> bidId = ''local-'' @ show_int (t_local_id env),
        userId = uid u, userName = traderName (Some u), amount = amt, quantity = None,
        bidType = t, timestamp = t_local env, stockSymbol = symbol (stock s),
        status = Some Active, profitLoss = None \<rparr> (set (bids s))"
    using assms(1,2) ab perm
    by (simp add: placeBid_def Let_def split_beta bids_sendWhatsAppInvoice set_js_sort
        set_insert_cmp)
  have 3: "userProfitLoss (r_state ?r) = userProfitLoss s + pl"
    using assms(1,2) ab perm
    by (simp add: placeBid_def Let_def split_beta userProfitLoss_sendWhatsAppInvoice pl_def qty_def)
  have 4: "map i_profitLoss (invoices_of (r_effects ?r)) = [pl]"
    "map i_bidId (invoices_of (r_effects ?r)) = [Some (''local-'' @ show_int (t_local_id env))]"
    using assms(1,2) ab perm
    by (simp_all add: placeBid_def Let_def split_beta invoices_of_append
        invoices_sendWhatsAppInvoice pl_def qty_def)
  show ?thesis
    unfolding Let_def pl_case[unfolded qty_def]
    using 1 2 3 4 by blast
qed

theorem C6_local_bid_witness:
  "user ex_state = Some ex_user \<and> isAuctionActive ex_state (t_check ex_env)
   \<and> rules ex_store_denied BidsC Write = Some ''Missing or insufficient permissions.''
   \<and> sublist ''permissions'' ''Missing or insufficient permissions.''
   \<and> thrown (placeBid False ex_service ex_fmt ex_env ex_store_denied ex_state 151 Buy (Some 10)) = None
   \<and> r_store (placeBid False ex_service ex_fmt ex_env ex_store_denied ex_state 151 Buy (Some 10))
       = ex_store_denied
   \<and> userProfitLoss (r_state
        (placeBid False ex_service ex_fmt ex_env ex_store_denied ex_state 151 Buy (Some 10))) = - 10
   \<and> map i_profitLoss (invoices_of (r_effects
        (placeBid False ex_service ex_fmt ex_env ex_store_denied ex_state 151 Buy (Some 10)))) = [- 10]
   \<and> map i_bidId (invoices_of (r_effects
        (placeBid False ex_service ex_fmt ex_env ex_store_denied ex_state 151 Buy (Some 10))))
       = [Some ''local-1020'']"
proof -
  have h1: "user ex_state = Some ex_user" by (simp add: ex_state_def)
  have h2: "isAuctionActive ex_state (t_check ex_env)"
    by (simp add: isAuctionActive_def getTimeRemaining_def ex_state_def ex_auction_def ex_env_def)
  have h3: "rules ex_store_denied BidsC Write = Some ''Missing or insufficient permissions.''"
    by (simp add: ex_store_denied_def)
  have h4: "sublist ''permissions'' ''Missing or insufficient permissions.''"
    by code_simp
  have cp: "currentPrice (stock ex_state) = 150" "userProfitLoss ex_state = 0"
    "show_int (t_local_id ex_env) = ''1020''"
    by (simp_all add: ex_state_def initialState_def ex_env_def show_int_def)
  show ?thesis
    using h1 h2 h3 h4
      C6_local_bid_on_permission_error[OF h1 h2 h3 h4, of False ex_service ex_fmt 151 Buy "Some 10"]
    by (simp add: Let_def cp)
qed

lemma ended_auction_rejects:
  assumes "auction s = Some a" and "endTime a < t_check env"
  shows "thrown (placeBid e svc fmt env st s amt t q)
           = Some (case user s of None \<Rightarrow> ''User not authenticated''
                   | Some u \<Rightarrow> ''Auction is not active'')"
    and "r_state (placeBid e svc fmt env st s amt t q) = s"
    and "r_store (placeBid e svc fmt env st s amt t q) = st"
    and "invoices_of (r_effects (placeBid e svc fmt env st s amt t q)) = []"
proof -
  have "(endTime a - t_check env) div 1000 < 0"
    using assms(2) by (simp add: div_neg_pos_less0)
  then have n: "\<not> isAuctionActive s (t_check env)"
    using assms(1) by (simp add: isAuctionActive_def getTimeRemaining_def)
  show "thrown (placeBid e svc fmt env st s amt t q)
           = Some (case user s of None \<Rightarrow> ''User not authenticated''
                   | Some u \<Rightarrow> ''Auction is not active'')"
    and "r_state (placeBid e svc fmt env st s amt t q) = s"
    and "r_store (placeBid e svc fmt env st s amt t q) = st"
    and "invoices_of (r_effects (placeBid e svc fmt env st s amt t q)) = []"
    using n by (simp_all add: placeBid_def Let_def split: option.splits)
qed

lemma timer_ended_iff: "timerStatus active endT tick = Ended \<longleftrightarrow> \<not> active"
  by (simp add: timerStatus_def Let_def)

lemma timer_after_end: "endT < tick \<Longrightarrow> timerStatus True endT tick = Critical"
proof -
  assume "endT < tick"
  then have "(endT - tick) div 1000 < 0"
    by (simp add: div_neg_pos_less0)
  then show ?thesis
    by (simp add: timerStatus_def remaining_def Let_def)
qed

text \<open>
  C8. One second after the end time of the auction a placement of the signed-in trader
  is rejected with \<open>Auction is not active\<close> and nothing is recorded, but the timer does
  not show \<open>Ended\<close>: the application was last rendered while the auction was running,
  so the timer still has \<open>isActive = true\<close>, counts zero seconds and shows the status
  of the final minute. It shows \<open>Ended\<close> only after the application has been rendered
  again, which neither the timer's tick nor the rejected placement brings about.
\<close>

theorem C8_timer_not_ended:
  "endTime ex_auction = 301000 - 1000
   \<and> user ex_state = Some ex_user
   \<and> isAuctionActive ex_state 1000
   \<and> renderTimer ex_state 1000 301000 = Some Critical
   \<and> renderTimer ex_state 301000 301000 = Some Ended
   \<and> t_check ex_late_env = 301000
   \<and> thrown ex_placed_late = Some ''Auction is not active''
   \<and> r_state ex_placed_late = ex_state
   \<and> r_store ex_placed_late = ex_store"
proof -
  have a: "auction ex_state = Some ex_auction" "user ex_state = Some ex_user"
    by (simp_all add: ex_state_def)
  have e: "endTime ex_auction = 300000" "isActive ex_auction"
    by (simp_all add: ex_auction_def)
  have t: "t_check ex_late_env = 301000"
    by (simp add: ex_late_env_def)
  have l: "endTime ex_auction < t_check ex_late_env"
    by (simp add: e t)
  have r: "isAuctionActive ex_state 1000" "\<not> isAuctionActive ex_state 301000"
    by (simp_all add: isAuctionActive_def getTimeRemaining_def a e)
  have c: "timerStatus True 300000 301000 = Critical"
    by (rule timer_after_end) simp
  show ?thesis
    using ended_auction_rejects[OF a(1) l, of False ex_service ex_fmt ex_store 151 Buy "Some 10"]
    by (simp add: a e t r c renderTimer_def timer_ended_iff flip: ex_placed_late_def)
qed

section \<open>The quantity of a bid\<close>

lemma bidsCol_updateUserBidCount: "bidsCol (updateUserBidCount st u) = bidsCol st"
  by (auto simp: updateUserBidCount_def updateUserDoc_def split: option.splits sum.splits)

lemma bidsCol_updateAuctionStats: "bidsCol (updateAuctionStats st a x) = bidsCol st"
  by (auto simp: updateAuctionStats_def split: option.splits)

lemma placed_bid_without_quantity:
  assumes "user s = Some u" and "isAuctionActive s (t_check env)"
    and "rules st BidsC Write = None"
  shows "\<exists>b \<in> set (bids (r_state (placeBid e svc fmt env st s amt t q))).
           bidId b = newId env \<and> quantity b = None"
    and "\<exists>d. (newId env, d) \<in> set (bidsCol (r_store (placeBid e svc fmt env st s amt t q)))
           \<and> d_quantity d = None"
proof -
  let ?nb = "\<lparr> n_userId = uid u, n_userName = traderName (Some u), n_amount = amt,
        n_quantity = None, n_bidType = t, n_timestamp = t_bid env,
        n_stockSymbol = symbol (stock s), n_status = None, n_profitLoss = None \<rparr>"
  obtain b st1 where ab: "addBid st (newId env) (serverNow env) (t_saved env) ?nb = Inr (b, st1)"
    and b: "bidId b = newId env" "quantity b = n_quantity ?nb"
    using addBid_ok[OF assms(3)] by blast
  have d: "\<exists>d. (newId env, d) \<in> set (bidsCol st1) \<and> d_quantity d = None"
    using ab assms(3)
    by (auto simp: addBid_def Let_def bidsCol_updateUserStats bidsCol_updateUserBidCount
        bidsCol_updateAuctionStats)
  have sb: "bidsCol st2 = bidsCol st1" if "updateUserProfitLoss st1 (uid u) v = Inr st2" for v st2
    using that
    by (auto simp: updateUserProfitLoss_def updateUserDoc_def split: option.splits sum.splits)
  show "\<exists>b \<in> set (bids (r_state (placeBid e svc fmt env st s amt t q))).
           bidId b = newId env \<and> quantity b = None"
    using assms(1,2) ab b
    by (auto simp: placeBid_def Let_def split_beta bids_sendWhatsAppInvoice set_insert_cmp
        split: sum.splits)
  show "\<exists>d. (newId env, d) \<in> set (bidsCol (r_store (placeBid e svc fmt env st s amt t q)))
           \<and> d_quantity d = None"
    using assms(1,2) ab d sb
    by (auto simp: placeBid_def Let_def split_beta split: sum.splits)
qed

lemma ex_placed_eval:
  "thrown ex_placed = None"
  "map i_quantity (invoices_of (r_effects ex_placed)) = [5]"
  "map bidId (bids (r_state ex_placed)) = [''doc1'']"
  "map quantity (bids (r_state ex_placed)) = [None]"
  "bidsCol (r_store ex_placed)
     = [(''doc1'', \<lparr> d_userId = ''u1'', d_userName = ''Asha'', d_amount = 152, d_quantity = None,
          d_bidType = Sell, d_timestamp = Some 1005, d_stockSymbol = ''AAPL'',
          d_status = Some Active, d_profitLoss = None \<rparr>)]"
  "rules (r_store ex_placed) = (\<lambda>c a. None)"
  by (simp_all add: ex_placed_def placeBid_def addBid_def Let_def ex_state_def ex_user_def
      ex_env_def ex_store_def ex_auction_def initialState_def isAuctionActive_def
      getTimeRemaining_def traderName_def or_str_def updateUserStats_def updateUserBidCount_def
      updateUserDoc_def updateAuctionStats_def updateUserProfitLoss_def increment_def
      sendWhatsAppInvoice_def)

text \<open>
  C9. The trader sells 5 shares at 152.00. The placement succeeds and its invoice shows
  the quantity 5, but the bid that \<open>placeBid\<close> builds has no quantity field: the bid
  in the application state has none, the document in the store has none, and the bid
  that is read back from the store has the readers' default, 1, not 5. (By lemma
  \<open>placed_bid_without_quantity\<close> no placement through \<open>placeBid\<close> records its
  quantity.)
\<close>

theorem C9_quantity_not_recorded:
  "thrown ex_placed = None
   \<and> map i_quantity (invoices_of (r_effects ex_placed)) = [5]
   \<and> map bidId (bids (r_state ex_placed)) = [''doc1'']
   \<and> map quantity (bids (r_state ex_placed)) = [None]
   \<and> map d_quantity (map snd (bidsCol (r_store ex_placed))) = [None]
   \<and> map bidId ex_read_back = [''doc1'']
   \<and> map quantity ex_read_back = [Some 1]"
  by (simp add: ex_placed_eval ex_read_back_def getBids_def bidsQuery_def bid_of_doc_def)

section \<open>Cancelled bids and the order book\<close>

lemma cancelled_not_ranked:
  assumes "status b = Some Cancelled"
  shows "b \<notin> set (buyBids bs)" and "b \<notin> set (sellBids bs)" and "b \<notin> set (topBids bs)"
proof -
  have n: "\<not> isActiveBid b"
    using assms by (simp add: isActiveBid_def)
  show "b \<notin> set (buyBids bs)"
    using n buyBids_subset[of bs] by blast
  show "b \<notin> set (sellBids bs)"
    using n sellBids_subset[of bs] by blast
  have "set (topBids bs) \<subseteq> set (activeBids bs)"
    unfolding topBids_def slice0_def using set_take_subset[of 5] by (fastforce simp: set_js_sort)
  then show "b \<notin> set (topBids bs)"
    using n by (auto simp: activeBids_def)
qed

section \<open>Invoice delivery\<close>

text \<open>
  C7. A delivery to a valid phone number makes one network attempt at most, chosen by
  the configuration: the relay endpoint when it is switched on, else the direct
  provider API when the service is configured, else none. When the attempt fails, the
  simulation follows at once (a failing relay is not followed by the direct provider
  API). The simulation waits 800 ms and answers with a success whose message id is
  \<open>simulated_<time>\<close>; so every delivery to a valid number reports success.
\<close>

theorem C7_delivery_order:
  assumes "formatPhoneNumber phone = Some to"
  shows "fst (sendInvoice svc nw fmt phone iv) =
           (if useBackendApi svc then
              RelayPost (backendApiUrl svc @ ''/api/send-whatsapp'') to (fmt iv) #
                (case relay nw of HttpResponse True mid \<Rightarrow> []
                 | _ \<Rightarrow> [Simulated to (fmt iv), Delay 800])
            else if isConfigured svc then
              TwilioPost (whatsappNumber svc) to (fmt iv) #
                (case twilio nw of HttpResponse True mid \<Rightarrow> []
                 | _ \<Rightarrow> [Simulated to (fmt iv), Delay 800])
            else [Simulated to (fmt iv), Delay 800])
       \<and> success (snd (sendInvoice svc nw fmt phone iv))
       \<and> (Simulated to (fmt iv) \<in> set (fst (sendInvoice svc nw fmt phone iv)) \<longrightarrow>
            messageId (snd (sendInvoice svc nw fmt phone iv))
              = Some (''simulated_'' @ show_int (t_sim nw)))"
  using assms
  by (auto simp: sendInvoice_def sendViaBackendAPI_def sendTwilioMessage_def
      simulateMessage_def Let_def split: http_result.splits bool.splits)

lemma ex_phone: "formatPhoneNumber ''+91 98765 43210'' = Some ''whatsapp:+919876543210''"
  by (simp add: formatPhoneNumber_def)

lemma ex_service_both_eval:
  "useBackendApi ex_service_both" "isConfigured ex_service_both"
  "backendApiUrl ex_service_both = ''http://localhost:3001''"
  "accountSid ex_service_both = ''AC0123456789''"
  by (simp_all add: ex_service_both_def WhatsAppService_def env_or_def or_str_def Let_def)

theorem C7_delivery_witness:
  "formatPhoneNumber ''+91 98765 43210'' = Some ''whatsapp:+919876543210''
   \<and> fst (sendInvoice ex_service ex_net_relay_down ex_fmt ''+91 98765 43210'' ex_invoice)
       = [Simulated ''whatsapp:+919876543210'' ''STOCK AUCTION INVOICE'', Delay 800]
   \<and> success (snd (sendInvoice ex_service ex_net_relay_down ex_fmt ''+91 98765 43210'' ex_invoice))
   \<and> messageId (snd (sendInvoice ex_service ex_net_relay_down ex_fmt ''+91 98765 43210'' ex_invoice))
       = Some ''simulated_1040''"
proof -
  have s: "\<not> useBackendApi ex_service" "\<not> isConfigured ex_service"
    by (simp_all add: ex_service_def WhatsAppService_def env_or_def or_str_def Let_def)
  have t: "show_int (t_sim ex_net_relay_down) = ''1040''"
    by (simp add: ex_net_relay_down_def show_int_def)
  show ?thesis
    using C7_delivery_order[OF ex_phone, of ex_service ex_net_relay_down ex_fmt ex_invoice]
    by (simp add: ex_phone s t ex_fmt_def)
qed

text \<open>
  The strategies are not tried one after the other. With the relay switched on and down
  while the provider's
  credentials are set and the provider would answer: the relay is tried, then the
  simulation; the direct provider API is never tried.
\<close>

theorem C7_relay_failure_skips_provider:
  "useBackendApi ex_service_both \<and> isConfigured ex_service_both
   \<and> accountSid ex_service_both = ''AC0123456789''
   \<and> twilio ex_net_relay_down = HttpResponse True (Some ''SM1'')
   \<and> fst ex_delivery
       = [RelayPost ''http://localhost:3001/api/send-whatsapp'' ''whatsapp:+919876543210''
            ''STOCK AUCTION INVOICE'',
          Simulated ''whatsapp:+919876543210'' ''STOCK AUCTION INVOICE'', Delay 800]
   \<and> filter is_twilio (fst ex_delivery) = []"
  by (simp add: ex_delivery_def sendInvoice_def ex_phone ex_service_both_eval
      sendViaBackendAPI_def simulateMessage_def ex_net_relay_down_def ex_fmt_def Let_def)

section \<open>The minimum bid\<close>

text \<open>
  C4. The form rejects every amount that is less than the highest bid plus the
  increment (the current price plus the increment when there is no bid). It accepts an
  amount equal to this threshold when the other checks of the form pass: the quantity
  is between 1 and 10,000, the amount is positive and at most 1,000,000, and the total
  is at most 50,000,000. With the highest bid at 151 and the increment 1, the text
  151.99 is rejected and 152.00 is accepted.
\<close>

theorem C4_minimum_bid:
  "(parseFloat bidAmount = Some a \<and> a < minBid highest current inc \<longrightarrow>
      \<not> isValidBid (validateBid parseFloat parseInt bidAmount qtyText t (minBid highest current inc)))
   \<and> (bidAmount \<noteq> [] \<and> qtyText \<noteq> [] \<and> parseFloat bidAmount = Some a
        \<and> a = minBid highest current inc \<and> 0 < a \<and> a \<le> 1000000
        \<and> parseInt qtyText = Some n \<and> 0 < n \<and> n \<le> 10000 \<and> a * real_of_int n \<le> 50000000 \<longrightarrow>
        validateBid parseFloat parseInt bidAmount qtyText t (minBid highest current inc)
          = ValidBid t a)"
  by (auto simp: validateBid_def isValidBid_def split: option.splits)

lemma ex_parse:
  "parse_decimal ''151.99'' = Some 151.99" "parse_decimal ''152.00'' = Some 152"
  "parse_decimal ''1000001'' = Some 1000001" "parse_digits ''10'' = Some 10"
  by (simp_all add: parse_decimal_def parse_digits_def digit_of_def)

theorem C4_minimum_bid_witness:
  "parse_decimal ''151.99'' = Some 151.99 \<and> (151.99 :: real) < minBid (Some ex_high_bid) 150 1
   \<and> parse_decimal ''152.00'' = Some 152 \<and> (152 :: real) = minBid (Some ex_high_bid) 150 1
   \<and> parse_digits ''10'' = Some 10
   \<and> \<not> isValidBid (validateBid parse_decimal parse_digits ''151.99'' ''10'' Buy
          (minBid (Some ex_high_bid) 150 1))
   \<and> validateBid parse_decimal parse_digits ''152.00'' ''10'' Buy (minBid (Some ex_high_bid) 150 1)
       = ValidBid Buy 152
   \<and> (150.5 :: real) < minBid None 150 1
   \<and> \<not> isValidBid (validateBid parse_decimal parse_digits ''150.5'' ''10'' Sell (minBid None 150 1))"
proof -
  have m: "minBid (Some ex_high_bid) 150 1 = 152" "minBid None 150 1 = 151"
    by (simp_all add: minBid_def ex_high_bid_def ex_bid_late_def)
  have p: "parse_decimal ''150.5'' = Some 150.5"
    by (simp add: parse_decimal_def digit_of_def)
  show ?thesis
    using C4_minimum_bid[of parse_decimal "''151.99''" "151.99" "Some ex_high_bid" 150 1
        parse_digits "''10''" Buy 10]
      C4_minimum_bid[of parse_decimal "''152.00''" 152 "Some ex_high_bid" 150 1
        parse_digits "''10''" Buy 10]
      C4_minimum_bid[of parse_decimal "''150.5''" "150.5" None 150 1 parse_digits "''10''" Sell 10]
    by (simp add: m p ex_parse)
qed

text \<open>
  Without the other checks the amount at the threshold is not always accepted. When the
  highest bid is at the ceiling of 1,000,000, the
  threshold is 1,000,001, and the amount equal to it is rejected as above the maximum.
\<close>

theorem C4_threshold_above_ceiling:
  "parse_decimal ''1000001'' = Some (minBid (Some ex_top_bid) 150 1)
   \<and> validateBid parse_decimal parse_digits ''1000001'' ''10'' Buy (minBid (Some ex_top_bid) 150 1)
       = AboveMaximum
   \<and> \<not> isValidBid (validateBid parse_decimal parse_digits ''1000001'' ''10'' Buy
          (minBid (Some ex_top_bid) 150 1))"
  by (simp add: ex_parse minBid_def ex_top_bid_def ex_bid_late_def validateBid_def isValidBid_def)

end
